theory Spec2Isabelle
  imports
    Complex_Main
    "HOL-Library.AList"
    "HOL-Library.Char_ord"
    "HOL-Library.List_Lexorder"
    "HOL-Library.Sublist"
begin

section \<open>Values and dictionaries\<close>

text \<open>
  The application keeps every ticket as a Python \<open>dict\<close> whose values are whatever JSON
  gave: the ticket file is read with \<open>json.loads\<close>, the advisory answers are parsed with
  \<open>json.loads\<close> and stored unchecked. The model therefore keeps values dynamically typed.
  Python's \<open>int\<close> and \<open>float\<close> compare by numeric value and are both \<open>JNum\<close>
  over the rationals; the non-finite floats (\<open>nan\<close>, \<open>inf\<close>) are not represented.
  A \<open>dict\<close> is an association list in insertion order; a \<open>str\<close> is a list of 8-bit
  characters.
\<close>

datatype json =
    JNull
  | JBool bool
  | JNum rat
  | JStr string
  | JArr "json list"
  | JObj "(string \<times> json) list"

type_synonym dict = "(string \<times> json) list"

datatype error = KeyError | TypeError | ValueError | AttributeError

text \<open>\<open>d.get(k, default)\<close>, \<open>d[k]\<close> (which raises on a missing key) and \<open>d[k] = v\<close>.\<close>

definition dget :: "dict \<Rightarrow> string \<Rightarrow> json \<Rightarrow> json" where
  "dget d k dflt = (case map_of d k of Some v \<Rightarrow> v | None \<Rightarrow> dflt)"

definition ditem :: "dict \<Rightarrow> string \<Rightarrow> error + json" where
  "ditem d k = (case map_of d k of Some v \<Rightarrow> Inr v | None \<Rightarrow> Inl KeyError)"

definition dset :: "dict \<Rightarrow> string \<Rightarrow> json \<Rightarrow> dict" where
  "dset d k v = AList.update k v d"

text \<open>The dict display \<open>{..., **extra}\<close>: the entries of \<open>extra\<close> are stored in order
  over the entries written before them.\<close>

definition dict_merge :: "dict \<Rightarrow> dict \<Rightarrow> dict" where
  "dict_merge base extra = fold (\<lambda>(k, v) d. dset d k v) extra base"

text \<open>Truth value of a Python object, as \<open>if x:\<close>, \<open>not x\<close> and \<open>x or y\<close> use it.\<close>

fun truthy :: "json \<Rightarrow> bool" where
  "truthy JNull = False"
| "truthy (JBool b) = b"
| "truthy (JNum n) = (n \<noteq> 0)"
| "truthy (JStr s) = (s \<noteq> [])"
| "truthy (JArr xs) = (xs \<noteq> [])"
| "truthy (JObj d) = (d \<noteq> [])"

text \<open>
  Python's \<open>==\<close> on these values: \<open>True == 1\<close> and \<open>1 == 1.0\<close> hold, sequences are
  compared element by element, dicts key by key whatever the order of insertion, and
  values of different kinds are unequal.
\<close>

function py_eq :: "json \<Rightarrow> json \<Rightarrow> bool" where
  "py_eq JNull b = (b = JNull)"
| "py_eq (JBool x) b =
     (case b of JBool y \<Rightarrow> x = y | JNum n \<Rightarrow> n = (if x then 1 else 0) | _ \<Rightarrow> False)"
| "py_eq (JNum m) b =
     (case b of JBool y \<Rightarrow> m = (if y then 1 else 0) | JNum n \<Rightarrow> m = n | _ \<Rightarrow> False)"
| "py_eq (JStr s) b = (b = JStr s)"
| "py_eq (JArr xs) b =
     (case b of
        JArr ys \<Rightarrow> length xs = length ys \<and> (\<forall>i < length xs. py_eq (xs ! i) (ys ! i))
      | _ \<Rightarrow> False)"
| "py_eq (JObj d) b =
     (case b of
        JObj e \<Rightarrow>
          (\<forall>k \<in> set (map fst e). k \<in> set (map fst d)) \<and>
          (\<forall>k \<in> set (map fst d).
             case (map_of d k, map_of e k) of (Some v, Some w) \<Rightarrow> py_eq v w | _ \<Rightarrow> False)
      | _ \<Rightarrow> False)"
  by pat_completeness auto
termination
proof (relation "measure (\<lambda>(a, b). size a)", goal_cases)
  case 1
  show ?case by simp
next
  case (2 xs b ys i)
  have "x \<in> set zs \<Longrightarrow> size x < Suc (size_list size zs)" for x :: json and zs
    by (induction zs) auto
  from this [of "xs ! i" xs] 2 show ?case by simp
next
  case (3 d b e k x y v w)
  have "map_of c k = Some v \<Longrightarrow> size v < Suc (size_list (size_prod (\<lambda>_. 0) size) c)"
    for c :: dict
    by (induction c) (auto split: if_splits)
  from this [of d] 3 show ?case by simp
qed

definition py_ne :: "json \<Rightarrow> json \<Rightarrow> bool" where
  "py_ne a b = (\<not> py_eq a b)"

section \<open>The Python runtime and the session\<close>

text \<open>
  Library functions the application calls and the model does not spell out are taken as
  parameters, so every theorem holds for whatever they compute: \<open>str()\<close> of a value that
  is not a string (used by the f-strings), \<open>json.loads\<close> (\<open>None\<close> when it raises; it is
  only ever called on a text that starts with an opening brace, so a result is a dict),
  \<open>json.dumps\<close> of a dict, \<open>float()\<close> of a string (\<open>None\<close> when it raises), and
  the format \<open>.1f\<close> of a number.
\<close>

record pylib =
  py_str :: "json \<Rightarrow> string"
  json_loads :: "string \<Rightarrow> dict option"
  json_dumps :: "dict \<Rightarrow> string"
  float_of_str :: "string \<Rightarrow> rat option"
  format_1f :: "rat \<Rightarrow> string"

text \<open>
  The session holds the configuration values, already stripped as \<open>get_openrouter_config\<close>
  and \<open>get_jira_config\<close> strip them, and the two remote services. \<open>remote_ai n sys usr\<close> is
  what the \<open>n\<close>-th advisory request yields: \<open>None\<close> when \<open>requests.post\<close>,
  \<open>raise_for_status\<close> or \<open>response.json()\<close> raises, otherwise the decoded body.
  \<open>jira_post\<close> is the same for the issue tracker.
\<close>

record session =
  openrouter_api_key :: string
  jira_base_url :: string
  jira_email :: string
  jira_api_token :: string
  jira_project_key :: string
  remote_ai :: "nat \<Rightarrow> string \<Rightarrow> string \<Rightarrow> json option"
  jira_post :: "dict \<Rightarrow> json option"

definition use_mock :: "session \<Rightarrow> bool" where
  "use_mock S = (openrouter_api_key S = [])"


text \<open>An f-string field \<open>{v}\<close>.\<close>

definition fmt :: "pylib \<Rightarrow> json \<Rightarrow> string" where
  "fmt L v = (case v of JStr s \<Rightarrow> s | _ \<Rightarrow> py_str L v)"

definition nl :: string where
  "nl = [CHR 0x0A]"

text \<open>\<open>str.lower\<close> on ASCII text.\<close>

definition lower_char :: "char \<Rightarrow> char" where
  "lower_char c =
     (if CHR ''A'' \<le> c \<and> c \<le> CHR ''Z'' then char_of (of_char c + (32::nat)) else c)"

definition lower :: "string \<Rightarrow> string" where
  "lower s = map lower_char s"

section \<open>The advisory client\<close>

text \<open>The three canned answers of the stand-in, as the dicts \<open>call_ai\<close> hands to
  \<open>json.dumps\<close>.\<close>

definition mock_priority :: dict where
  "mock_priority =
     [(''calculated_priority'', JStr ''High''),
      (''priority_score'', JNum (17 / 2)),
      (''reasoning'', JStr
         ''Multiple servers affected with potential safety concerns. Impact scope is significant.''),
      (''factors'', JObj
         [(''impact_scope'', JStr ''rack''),
          (''service_impact'', JStr ''partial_outage''),
          (''urgency'', JStr ''within_24h''),
          (''safety'', JStr ''moderate'')]),
      (''recommended_actions'', JArr
         [JStr ''Immediate assessment of affected rack'',
          JStr ''Check power distribution and cooling'',
          JStr ''Verify network connectivity'',
          JStr ''Schedule maintenance window if needed''])]"

definition mock_validation :: dict where
  "mock_validation =
     [(''is_complete'', JBool False),
      (''completeness_score'', JNum (65 / 100)),
      (''missing_fields'', JArr
         [JStr ''root_cause_analysis'', JStr ''estimated_time'', JStr ''required_parts'']),
      (''suggestions'', JObj
         [(''summary'', JStr ''Add specific server IDs and error codes''),
          (''description'', JStr
             ''Include recent logs, error patterns, and troubleshooting steps already attempted''),
          (''priority'', JStr ''Consider impact on critical services'')]),
      (''auto_enhanced'', JObj
         [(''summary'', JStr ''GPU Server Cluster Offline - Rack 3B-04 - Thermal Event''),
          (''description'', JStr
             (''Multiple GPU servers in rack 3B-04 have gone offline. Initial assessment '' @
              ''suggests cooling system failure. Requires immediate investigation to prevent '' @
              ''hardware damage. Affected: srv-gpu-301 through srv-gpu-308.'')),
          (''estimated_duration'', JStr ''2-4 hours''),
          (''required_skills'', JArr
             [JStr ''thermal management'', JStr ''GPU hardware'', JStr ''HVAC systems''])])]"

definition mock_generic :: dict where
  "mock_generic =
     [(''summary'', JStr ''Server hardware issue requiring attention''),
      (''priority'', JStr ''Medium''),
      (''description'', JStr
         ''Issue detected requiring technical investigation and resolution.''),
      (''steps'', JArr
         [JStr ''Verify server status in monitoring system'',
          JStr ''Check physical connections and indicators'',
          JStr ''Review system logs for errors'',
          JStr ''Test hardware components'',
          JStr ''Document findings and resolution'']),
      (''confidence'', JNum (75 / 100))]"

text \<open>
  The body of the \<open>try\<close> block after the request:
  \<open>data.get("choices", [{}])[0].get("message", {}).get("content", "")\<close>, then the join of
  the text items when the content is a list. \<open>None\<close> stands for any exception, all of
  which the \<open>except\<close> clause turns into the text \<open>{}\<close>.
\<close>

fun first_item :: "json \<Rightarrow> json option" where
  "first_item (JArr (x # xs)) = Some x"
| "first_item (JStr (c # cs)) = Some (JStr [c])"
| "first_item _ = None"

fun text_items :: "json list \<Rightarrow> string list option" where
  "text_items [] = Some []"
| "text_items (JObj item # rest) =
     (case text_items rest of
        None \<Rightarrow> None
      | Some ts \<Rightarrow>
          if py_eq (dget item ''type'' JNull) (JStr ''text'')
          then (case dget item ''text'' (JStr []) of JStr t \<Rightarrow> Some (t # ts) | _ \<Rightarrow> None)
          else Some ts)"
| "text_items (_ # rest) = None"

fun join_nl :: "string list \<Rightarrow> string" where
  "join_nl [] = []"
| "join_nl [t] = t"
| "join_nl (t # ts) = t @ nl @ join_nl ts"

definition extract_content :: "json \<Rightarrow> json option" where
  "extract_content data =
     (case data of
        JObj d \<Rightarrow>
          (case first_item (dget d ''choices'' (JArr [JObj []])) of
             Some (JObj choice) \<Rightarrow>
               (case dget choice ''message'' (JObj []) of
                  JObj message \<Rightarrow>
                    (case dget message ''content'' (JStr []) of
                       JArr items \<Rightarrow> map_option (\<lambda>ts. JStr (join_nl ts)) (text_items items)
                     | content \<Rightarrow> Some content)
                | _ \<Rightarrow> None)
           | _ \<Rightarrow> None)
      | _ \<Rightarrow> None)"

text \<open>
  \<open>call_ai\<close>. The counter \<open>n\<close> numbers the invocations of the advisory client; it is
  returned incremented. Without an API key the answer is chosen by the substrings of the
  lower-cased user prompt.
\<close>

definition call_ai :: "pylib \<Rightarrow> session \<Rightarrow> nat \<Rightarrow> string \<Rightarrow> string \<Rightarrow> json \<times> nat" where
  "call_ai L S n system_prompt user_prompt =
     (if use_mock S then
        (if sublist ''calculate priority score'' (lower user_prompt)
         then JStr (json_dumps L mock_priority)
         else if sublist ''validate'' (lower user_prompt) \<or> sublist ''complete'' (lower user_prompt)
         then JStr (json_dumps L mock_validation)
         else JStr (json_dumps L mock_generic),
         Suc n)
      else
        (case remote_ai S n system_prompt user_prompt of
           None \<Rightarrow> JStr ''{}''
         | Some data \<Rightarrow>
             (case extract_content data of
                None \<Rightarrow> JStr ''{}''
              | Some content \<Rightarrow> if truthy content then content else JStr ''{}''),
         Suc n))"



text \<open>
  \<open>response[response.find("{"):response.rfind("}")+1]\<close> for a response that contains an
  opening brace: \<open>find\<close> is the first index of the brace, \<open>rfind\<close> the last index of the
  closing one or \<open>-1\<close>.
\<close>

definition find_char :: "char \<Rightarrow> string \<Rightarrow> nat" where
  "find_char c s = length (takeWhile (\<lambda>x. x \<noteq> c) s)"

definition rfind_char :: "char \<Rightarrow> string \<Rightarrow> int" where
  "rfind_char c s =
     (if c \<in> set s then int (length s) - 1 - int (length (takeWhile (\<lambda>x. x \<noteq> c) (rev s)))
      else - 1)"

definition brace_slice :: "string \<Rightarrow> string" where
  "brace_slice response =
     drop (find_char CHR ''{'' response) (take (nat (rfind_char CHR ''}'' response + 1)) response)"

text \<open>
  The \<open>try\<close> block shared by \<open>calculate_priority_score\<close> and
  \<open>validate_and_enhance_ticket\<close>: the parsed object when the response is a text with an
  opening brace whose slice parses, the fallback otherwise. A response that is not a text
  (a remote \<open>content\<close> that is a number or an object) raises inside the \<open>try\<close> or has no
  such member, and ends at the fallback too.
\<close>

definition parse_ai_json :: "pylib \<Rightarrow> json \<Rightarrow> dict \<Rightarrow> dict" where
  "parse_ai_json L response fallback =
     (case response of
        JStr text \<Rightarrow>
          if CHR ''{'' \<in> set text
          then (case json_loads L (brace_slice text) of Some d \<Rightarrow> d | None \<Rightarrow> fallback)
          else fallback
      | _ \<Rightarrow> fallback)"

definition priority_system_prompt :: string where
  "priority_system_prompt =
     ''You are an expert data center operations AI. Analyze tickets and calculate objective priority scores.''
     @ nl @ ''    '' @ nl
     @ ''Consider:'' @ nl
     @ ''1. Impact Scope: How many systems/services affected?'' @ nl
     @ ''2. Service Impact: Is service degraded or completely down?'' @ nl
     @ ''3. Urgency: Is this causing active issues or preventive?'' @ nl
     @ ''4. Safety: Any safety concerns for personnel or equipment?'' @ nl @ nl
     @ ''Return JSON with: calculated_priority, priority_score (0-10), reasoning, factors, recommended_actions''"

definition priority_user_prompt :: "pylib \<Rightarrow> dict \<Rightarrow> string" where
  "priority_user_prompt L ticket =
     ''Analyze this ticket and calculate objective priority:'' @ nl @ nl
     @ ''Summary: '' @ fmt L (dget ticket ''summary'' (JStr [])) @ nl
     @ ''Description: '' @ fmt L (dget ticket ''description'' (JStr [])) @ nl
     @ ''User Priority: '' @ fmt L (dget ticket ''user_priority'' (JStr ''Not specified'')) @ nl
     @ ''Location: '' @ fmt L (dget ticket ''rack'' (JStr [])) @ '' / ''
     @ fmt L (dget ticket ''server'' (JStr [])) @ nl @ nl
     @ ''Calculate the actual priority score based on objective factors.''"

definition priority_fallback :: "dict \<Rightarrow> dict" where
  "priority_fallback ticket =
     [(''calculated_priority'', dget ticket ''user_priority'' (JStr ''Medium'')),
      (''priority_score'', JNum 5),
      (''reasoning'', JStr ''Unable to calculate detailed score''),
      (''factors'', JObj []),
      (''recommended_actions'', JArr [])]"

definition calculate_priority_score :: "pylib \<Rightarrow> session \<Rightarrow> nat \<Rightarrow> dict \<Rightarrow> dict \<times> nat" where
  "calculate_priority_score L S n ticket =
     (let (response, n') = call_ai L S n priority_system_prompt (priority_user_prompt L ticket)
      in (parse_ai_json L response (priority_fallback ticket), n'))"

definition validation_system_prompt :: string where
  "validation_system_prompt =
     ''You are an expert data center ticket quality analyst. Evaluate tickets for completeness and suggest enhancements.''
     @ nl @ nl
     @ ''Check for:'' @ nl
     @ ''- Clear, specific problem description'' @ nl
     @ ''- Actionable information'' @ nl
     @ ''- Relevant technical details'' @ nl
     @ ''- Proper categorization'' @ nl @ nl
     @ ''Return JSON with: is_complete, completeness_score, missing_fields, suggestions, auto_enhanced''"

definition validation_user_prompt :: "pylib \<Rightarrow> dict \<Rightarrow> string" where
  "validation_user_prompt L ticket =
     ''Validate and enhance this ticket:'' @ nl @ nl
     @ ''Summary: '' @ fmt L (dget ticket ''summary'' (JStr [])) @ nl
     @ ''Description: '' @ fmt L (dget ticket ''description'' (JStr [])) @ nl
     @ ''Server: '' @ fmt L (dget ticket ''server'' (JStr [])) @ nl
     @ ''Rack: '' @ fmt L (dget ticket ''rack'' (JStr [])) @ nl
     @ ''Priority: '' @ fmt L (dget ticket ''priority'' (JStr [])) @ nl @ nl
     @ ''Provide specific suggestions for improvement.''"

definition validation_fallback :: dict where
  "validation_fallback =
     [(''is_complete'', JBool True),
      (''completeness_score'', JNum (7 / 10)),
      (''missing_fields'', JArr []),
      (''suggestions'', JObj []),
      (''auto_enhanced'', JObj [])]"

definition validate_and_enhance_ticket :: "pylib \<Rightarrow> session \<Rightarrow> nat \<Rightarrow> dict \<Rightarrow> dict \<times> nat" where
  "validate_and_enhance_ticket L S n ticket =
     (let (response, n') = call_ai L S n validation_system_prompt (validation_user_prompt L ticket)
      in (parse_ai_json L response validation_fallback, n'))"

section \<open>Ticket creation\<close>

text \<open>
  \<open>create_ticket\<close>. \<open>uid\<close> is the text of the fresh UUID and \<open>now\<close> the ISO-8601 text of
  the clock reading; the result is the ticket together with the advanced invocation
  counter. \<open>ticket["user_priority"]\<close> cannot raise, the key being written by the dict
  display itself (lemma \<open>new_ticket_fields\<close>).
\<close>

definition new_ticket :: "string \<Rightarrow> string \<Rightarrow> string \<Rightarrow> dict \<Rightarrow> dict" where
  "new_ticket uid now username ticket_data =
     dict_merge
       [(''id'', JStr (take 8 uid)),
        (''created_at'', JStr now),
        (''created_by'', JStr username),
        (''status'', JStr ''Draft''),
        (''user_priority'', dget ticket_data ''priority'' (JStr ''Medium''))]
       ticket_data"

definition create_ticket ::
  "pylib \<Rightarrow> session \<Rightarrow> nat \<Rightarrow> string \<Rightarrow> string \<Rightarrow> string \<Rightarrow> dict \<Rightarrow> dict \<times> nat" where
  "create_ticket L S n uid now username ticket_data =
     (let ticket = new_ticket uid now username ticket_data;
          (validation, n1) = validate_and_enhance_ticket L S n ticket;
          ticket = dset ticket ''validation'' (JObj validation);
          (priority_analysis, n2) = calculate_priority_score L S n1 ticket;
          ticket = dset ticket ''priority_analysis'' (JObj priority_analysis);
          ticket = dset ticket ''calculated_priority''
                     (dget priority_analysis ''calculated_priority''
                        (dget ticket ''user_priority'' JNull));
          ticket = dset ticket ''priority_score'' (dget priority_analysis ''priority_score'' (JNum 5));
          ticket =
            (if py_ne (dget ticket ''calculated_priority'' JNull) (dget ticket ''user_priority'' JNull)
             then dset (dset ticket ''status'' (JStr ''AI Review'')) ''needs_priority_review'' (JBool True)
             else ticket)
      in (ticket, n2))"

section \<open>The priority weights\<close>

text \<open>The table \<open>PRIORITY_WEIGHTS\<close>.\<close>

definition PRIORITY_WEIGHTS :: "(string \<times> (string \<times> nat) list) list" where
  "PRIORITY_WEIGHTS =
     [(''impact_scope'',
         [(''single_server'', 1), (''rack'', 3), (''row'', 5), (''datacenter'', 10)]),
      (''service_impact'',
         [(''none'', 0), (''degraded'', 2), (''partial_outage'', 5), (''full_outage'', 10)]),
      (''urgency'',
         [(''scheduled'', 1), (''next_maintenance'', 2), (''within_24h'', 5), (''immediate'', 10)]),
      (''safety'',
         [(''none'', 0), (''minor'', 3), (''moderate'', 7), (''critical'', 10)])]"

definition factor_levels :: "string \<Rightarrow> (string \<times> nat) list" where
  "factor_levels factor = (case map_of PRIORITY_WEIGHTS factor of Some ls \<Rightarrow> ls | None \<Rightarrow> [])"

definition valid_level :: "string \<Rightarrow> string \<Rightarrow> bool" where
  "valid_level factor level = (level \<in> set (map fst (factor_levels factor)))"

text \<open>
  Modelled from the spec: the combination function of the Priority Model, which the source
  does not contain (it holds the weight table only and never computes a score from it).
  The spec leaves the function open and names three candidates: normalized sum, max and
  weighted average; an unknown level counts as the lowest weight of its factor. The
  normalized sum is taken as the mean of the four weights, the weighted average with
  natural coefficients \<open>a b c d\<close>.
\<close>

datatype combination = NormalizedSum | Maximum | WeightedAverage nat nat nat nat

definition level_weight :: "string \<Rightarrow> string \<Rightarrow> nat" where
  "level_weight factor level =
     (case map_of (factor_levels factor) level of
        Some w \<Rightarrow> w
      | None \<Rightarrow> fold min (map snd (factor_levels factor)) 10)"

fun combine :: "combination \<Rightarrow> nat \<Rightarrow> nat \<Rightarrow> nat \<Rightarrow> nat \<Rightarrow> rat" where
  "combine NormalizedSum w1 w2 w3 w4 = of_nat (w1 + w2 + w3 + w4) / 4"
| "combine Maximum w1 w2 w3 w4 = of_nat (max (max w1 w2) (max w3 w4))"
| "combine (WeightedAverage a b c d) w1 w2 w3 w4 =
     of_nat (a * w1 + b * w2 + c * w3 + d * w4) / of_nat (a + b + c + d)"

definition priority_model_score ::
  "combination \<Rightarrow> string \<Rightarrow> string \<Rightarrow> string \<Rightarrow> string \<Rightarrow> rat" where
  "priority_model_score comb impact_scope service_impact urgency safety =
     combine comb
       (level_weight ''impact_scope'' impact_scope)
       (level_weight ''service_impact'' service_impact)
       (level_weight ''urgency'' urgency)
       (level_weight ''safety'' safety)"

section \<open>Reading a ticket\<close>

text \<open>\<open>float(v)\<close>.\<close>

definition py_float :: "pylib \<Rightarrow> json \<Rightarrow> error + rat" where
  "py_float L v =
     (case v of
        JNum n \<Rightarrow> Inr n
      | JBool b \<Rightarrow> Inr (if b then 1 else 0)
      | JStr s \<Rightarrow> (case float_of_str L s of Some r \<Rightarrow> Inr r | None \<Rightarrow> Inl ValueError)
      | _ \<Rightarrow> Inl TypeError)"

text \<open>\<open>v < r\<close> for a float \<open>r\<close>: defined on numbers and booleans, a \<open>TypeError\<close> on
  anything else.\<close>

definition py_lt_float :: "json \<Rightarrow> rat \<Rightarrow> error + bool" where
  "py_lt_float v r =
     (case v of
        JNum n \<Rightarrow> Inr (n < r)
      | JBool b \<Rightarrow> Inr ((if b then 1 else 0) < r)
      | _ \<Rightarrow> Inl TypeError)"

text \<open>\<open>len(v)\<close>.\<close>

definition py_len :: "json \<Rightarrow> error + nat" where
  "py_len v =
     (case v of
        JStr s \<Rightarrow> Inr (length s)
      | JArr xs \<Rightarrow> Inr (length xs)
      | JObj d \<Rightarrow> Inr (length d)
      | _ \<Rightarrow> Inl TypeError)"

text \<open>
  \<open>show_ticket_detail\<close>: the priority score and the completeness it displays.
\<close>

definition detail_priority_score :: "pylib \<Rightarrow> dict \<Rightarrow> error + rat" where
  "detail_priority_score L ticket =
     (let score = dget ticket ''priority_score'' (JNum 0);
          score = (case score of JObj _ \<Rightarrow> JNum 0 | _ \<Rightarrow> score)
      in py_float L score)"

definition detail_completeness :: "pylib \<Rightarrow> dict \<Rightarrow> error + rat" where
  "detail_completeness L ticket =
     (case dget ticket ''validation'' (JObj []) of
        JObj validation \<Rightarrow>
          (let completeness = dget validation ''completeness_score'' (JNum 0);
               completeness = (case completeness of JObj _ \<Rightarrow> JNum (7 / 10) | _ \<Rightarrow> completeness)
           in case py_float L completeness of
                Inl e \<Rightarrow> Inl e
              | Inr c \<Rightarrow> Inr (max 0 (min 1 c)))
      | _ \<Rightarrow> Inl AttributeError)"

text \<open>
  \<open>display_ticket_card\<close>, the reads of the full (not compact) card in the order the
  function makes them; each can raise. The result is the priority score shown, whether
  the completeness warning is shown, and the status the buttons are chosen by: the stored
  status, or \<open>Draft\<close> when the stored status is not a string.
\<close>

definition card_status :: "dict \<Rightarrow> error + string" where
  "card_status ticket =
     (case ditem ticket ''status'' of
        Inl e \<Rightarrow> Inl e
      | Inr (JStr status) \<Rightarrow> Inr status
      | Inr _ \<Rightarrow> Inr ''Draft'')"

definition card_priority_score :: "pylib \<Rightarrow> dict \<Rightarrow> error + rat" where
  "card_priority_score L ticket =
     (let score = dget ticket ''priority_score'' (JNum 0);
          score = (case score of JObj _ \<Rightarrow> JNum 0 | _ \<Rightarrow> score)
      in py_float L score)"

text \<open>The preview \<open>x[:k] + "..." if len(x) > k else x\<close> raises on a list or dict
  once it is longer than \<open>k\<close> (a \<open>TypeError\<close>; for a dict the slice lookup raises a
  \<open>KeyError\<close> instead from Python 3.12 on), and on a value without length.\<close>

definition preview_ok :: "nat \<Rightarrow> json \<Rightarrow> error + unit" where
  "preview_ok k x =
     (case py_len x of
        Inl e \<Rightarrow> Inl e
      | Inr n \<Rightarrow> (case x of JStr s \<Rightarrow> Inr () | _ \<Rightarrow> if n > k then Inl TypeError else Inr ()))"

definition card_reasoning :: "dict \<Rightarrow> error + unit" where
  "card_reasoning ticket =
     (case dget ticket ''priority_analysis'' (JObj []) of
        JObj analysis \<Rightarrow>
          (let reasoning = dget analysis ''reasoning'' (JStr [])
           in if truthy reasoning then preview_ok 120 reasoning else Inr ())
      | _ \<Rightarrow> Inl AttributeError)"

definition card_completeness_warning :: "dict \<Rightarrow> error + bool" where
  "card_completeness_warning ticket =
     (case dget ticket ''validation'' (JObj []) of
        JObj validation \<Rightarrow> py_lt_float (dget validation ''completeness_score'' (JNum 1)) (8 / 10)
      | _ \<Rightarrow> Inl AttributeError)"

definition render_card :: "pylib \<Rightarrow> dict \<Rightarrow> error + (rat \<times> bool \<times> string)" where
  "render_card L ticket =
     (case ditem ticket ''id'' of Inl e \<Rightarrow> Inl e | Inr ticket_id \<Rightarrow>
      case card_status ticket of Inl e \<Rightarrow> Inl e | Inr status \<Rightarrow>
      case ditem ticket ''summary'' of Inl e \<Rightarrow> Inl e | Inr summary \<Rightarrow>
      case ditem ticket ''created_by'' of Inl e \<Rightarrow> Inl e | Inr created_by \<Rightarrow>
      case card_priority_score L ticket of Inl e \<Rightarrow> Inl e | Inr score \<Rightarrow>
      case card_reasoning ticket of Inl e \<Rightarrow> Inl e | Inr _ \<Rightarrow>
      case preview_ok 150 (dget ticket ''description'' (JStr [])) of Inl e \<Rightarrow> Inl e | Inr _ \<Rightarrow>
      case card_completeness_warning ticket of Inl e \<Rightarrow> Inl e | Inr warn \<Rightarrow>
      Inr (score, warn, status))"

section \<open>Lifecycle actions\<close>

text \<open>
  The buttons of the card. A button is drawn, and its handler can run, only under the
  guard on the card's status; the handler writes the ticket in place. \<open>now\<close> is the
  ISO-8601 text of the clock reading the handler takes.
\<close>

datatype action = Approve | Start | Complete

fun offered :: "action \<Rightarrow> string \<Rightarrow> bool" where
  "offered Approve status = (status \<in> set [''Draft'', ''AI Review''])"
| "offered Start status = (status = ''Approved'')"
| "offered Complete status = (status = ''In Progress'')"

fun handler :: "action \<Rightarrow> string \<Rightarrow> dict \<Rightarrow> dict" where
  "handler Approve now ticket =
     dset (dset ticket ''status'' (JStr ''Approved'')) ''needs_priority_review'' (JBool False)"
| "handler Start now ticket =
     dset (dset ticket ''status'' (JStr ''In Progress'')) ''started_at'' (JStr now)"
| "handler Complete now ticket =
     dset (dset ticket ''status'' (JStr ''Completed'')) ''completed_at'' (JStr now)"

text \<open>Pressing a lifecycle button on the card of a ticket: an exception while the card
  is drawn, \<open>None\<close> when the button is not there, the ticket after the handler otherwise.\<close>

definition card_action :: "pylib \<Rightarrow> action \<Rightarrow> string \<Rightarrow> dict \<Rightarrow> error + dict option" where
  "card_action L a now ticket =
     (case render_card L ticket of
        Inl e \<Rightarrow> Inl e
      | Inr (score, warn, status) \<Rightarrow>
          Inr (if offered a status then Some (handler a now ticket) else None))"


section \<open>Jira synchronisation\<close>









section \<open>The session state\<close>

text \<open>
  \<open>tickets\<close> is \<open>st.session_state.tickets\<close>, \<open>saved\<close> the content of the user's ticket
  file, \<open>audit\<close> the lines of the audit log, each without its bracketed time stamp, and
  \<open>ai_calls\<close> the number of invocations of \<open>call_ai\<close> so far. A ticket handed to a
  function is an element of the session list; the model names it by its index, and the
  in-place writes of the source become an update at that index.
\<close>

record world =
  tickets :: "dict list"
  saved :: "dict list"
  audit :: "string list"
  ai_calls :: nat

definition save_user_tickets :: "world \<Rightarrow> world" where
  "save_user_tickets w = w\<lparr>saved := tickets w\<rparr>"


definition append_audit_log :: "string \<Rightarrow> string \<Rightarrow> world \<Rightarrow> world" where
  "append_audit_log action details w =
     w\<lparr>audit := audit w @ [action @ (if details \<noteq> [] then '' | '' @ details else []) @ nl]\<rparr>"


text \<open>The three lifecycle buttons of the card of the ticket at index \<open>i\<close>, with the
  save and the audit line of their handlers.\<close>

fun audit_text :: "action \<Rightarrow> string" where
  "audit_text Approve = ''Approved ticket ''"
| "audit_text Start = ''Started work on ticket ''"
| "audit_text Complete = ''Completed ticket ''"

definition press_lifecycle :: "pylib \<Rightarrow> action \<Rightarrow> string \<Rightarrow> nat \<Rightarrow> world \<Rightarrow> error + world" where
  "press_lifecycle L a now i w =
     (if \<not> i < length (tickets w) then Inr w
      else
        case card_action L a now (tickets w ! i) of
          Inl e \<Rightarrow> Inl e
        | Inr None \<Rightarrow> Inr w
        | Inr (Some ticket) \<Rightarrow>
            Inr (append_audit_log (audit_text a @ fmt L (dget ticket ''id'' JNull)) []
                   (save_user_tickets (w\<lparr>tickets := (tickets w)[i := ticket]\<rparr>))))"



section \<open>The two creation paths\<close>





section \<open>Example inputs\<close>

text \<open>
  Concrete inputs for the examples below. \<open>example_loads\<close> gives the value of
  \<open>json.loads\<close> on the two texts the examples parse; \<open>chat_body\<close> is the decoded body of
  a chat completion whose message content is the given text.
\<close>

definition dq :: string where "dq = [CHR 0x22]"

definition answer_high_42 :: string where
  "answer_high_42 =
     ''{'' @ dq @ ''calculated_priority'' @ dq @ '': '' @ dq @ ''High'' @ dq @ '', ''
     @ dq @ ''priority_score'' @ dq @ '': 42}''"

definition example_loads :: "string \<Rightarrow> dict option" where
  "example_loads text =
     (if text = ''{}'' then Some []
      else if text = answer_high_42
      then Some [(''calculated_priority'', JStr ''High''), (''priority_score'', JNum 42)]
      else None)"

definition example_lib :: pylib where
  "example_lib =
     \<lparr>py_str = (\<lambda>v. ''None''), json_loads = example_loads, json_dumps = (\<lambda>d. ''{}''),
      float_of_str = (\<lambda>s. None), format_1f = (\<lambda>x. ''0.0'')\<rparr>"

definition chat_body :: "string \<Rightarrow> json" where
  "chat_body text =
     JObj [(''choices'', JArr [JObj [(''message'',
        JObj [(''role'', JStr ''assistant''), (''content'', JStr text)])]])]"

definition example_remote :: "(nat \<Rightarrow> string \<Rightarrow> string \<Rightarrow> json option) \<Rightarrow> session" where
  "example_remote r =
     \<lparr>openrouter_api_key = ''sk-example'', jira_base_url = [], jira_email = [],
      jira_api_token = [], jira_project_key = ''AXIS'', remote_ai = r, jira_post = (\<lambda>p. None)\<rparr>"

definition example_form :: dict where
  "example_form =
     [(''summary'', JStr ''Fan failure''), (''description'', JStr ''Fan 3 stopped''),
      (''server'', JStr ''srv-1''), (''rack'', JStr ''3B-04''), (''priority'', JStr ''Low'')]"

definition example_answering :: session where
  "example_answering = example_remote (\<lambda>n s u. Some (chat_body answer_high_42))"

definition example_unreachable :: session where
  "example_unreachable = example_remote (\<lambda>n s u. None)"

text \<open>A ticket as \<open>create_ticket\<close> leaves it, for the examples on stored tickets.\<close>

definition example_ticket :: dict where
  "example_ticket =
     [(''id'', JStr ''0f8fad5b''),
      (''created_at'', JStr ''2024-05-01T10:00:00+00:00''),
      (''created_by'', JStr ''tech1''),
      (''status'', JStr ''AI Review''),
      (''user_priority'', JStr ''Low''),
      (''summary'', JStr ''Fan failure''),
      (''description'', JStr ''Fan 3 stopped''),
      (''server'', JStr ''srv-1''),
      (''rack'', JStr ''3B-04''),
      (''priority'', JStr ''Low''),
      (''validation'', JObj [(''is_complete'', JBool True), (''completeness_score'', JNum (9 / 10))]),
      (''priority_analysis'', JObj [(''calculated_priority'', JStr ''High''), (''priority_score'', JNum 8)]),
      (''calculated_priority'', JStr ''High''),
      (''priority_score'', JNum 8),
      (''needs_priority_review'', JBool True)]"

















section \<open>Basic facts\<close>

lemma map_of_dset: "map_of (dset d k v) k' = (if k' = k then Some v else map_of d k')"
  by (simp add: dset_def update_conv')

lemma dget_dset: "dget (dset d k v) k' dflt = (if k' = k then v else dget d k' dflt)"
  by (simp add: dget_def map_of_dset)

lemma map_of_dict_merge_other:
  "k \<notin> fst ` set extra \<Longrightarrow> map_of (dict_merge base extra) k = map_of base k"
  unfolding dict_merge_def
  by (induction extra arbitrary: base) (auto simp: map_of_dset)

lemma new_ticket_fields:
  assumes "fst ` set ticket_data \<subseteq> {''summary'', ''description'', ''server'', ''rack'', ''priority''}"
  shows "map_of (new_ticket uid now username ticket_data) ''status'' = Some (JStr ''Draft'')"
    and "map_of (new_ticket uid now username ticket_data) ''needs_priority_review'' = None"
    and "map_of (new_ticket uid now username ticket_data) ''user_priority''
           = Some (dget ticket_data ''priority'' (JStr ''Medium''))"
proof -
  have a: "''status'' \<notin> fst ` set ticket_data" "''needs_priority_review'' \<notin> fst ` set ticket_data"
    "''user_priority'' \<notin> fst ` set ticket_data"
    using assms by auto
  show "map_of (new_ticket uid now username ticket_data) ''status'' = Some (JStr ''Draft'')"
    unfolding new_ticket_def by (simp add: map_of_dict_merge_other [OF a(1)])
  show "map_of (new_ticket uid now username ticket_data) ''needs_priority_review'' = None"
    unfolding new_ticket_def by (simp add: map_of_dict_merge_other [OF a(2)])
  show "map_of (new_ticket uid now username ticket_data) ''user_priority''
           = Some (dget ticket_data ''priority'' (JStr ''Medium''))"
    unfolding new_ticket_def by (simp add: map_of_dict_merge_other [OF a(3)])
qed



lemma brace_slice_high: "brace_slice answer_high_42 = answer_high_42"
  by (simp add: brace_slice_def find_char_def rfind_char_def answer_high_42_def dq_def)


lemma call_ai_high: "call_ai example_lib example_answering k sp upr
   = (JStr answer_high_42, Suc k)"
  by (simp add: call_ai_def use_mock_def example_answering_def example_remote_def chat_body_def
      extract_content_def dget_def answer_high_42_def dq_def)

lemma parse_high: "parse_ai_json example_lib (JStr answer_high_42) fb
   = [(''calculated_priority'', JStr ''High''), (''priority_score'', JNum 42)]"
proof -
  have "CHR ''{'' \<in> set answer_high_42" by (simp add: answer_high_42_def)
  then show ?thesis
    by (simp add: parse_ai_json_def example_lib_def brace_slice_high example_loads_def)
      (simp add: answer_high_42_def dq_def)
qed


lemma calculate_high: "calculate_priority_score example_lib example_answering k t
   = ([(''calculated_priority'', JStr ''High''), (''priority_score'', JNum 42)], Suc k)"
  by (simp add: calculate_priority_score_def call_ai_high parse_high)

lemma validate_high: "validate_and_enhance_ticket example_lib example_answering k t
   = ([(''calculated_priority'', JStr ''High''), (''priority_score'', JNum 42)], Suc k)"
  by (simp add: validate_and_enhance_ticket_def call_ai_high parse_high)

lemma py_eq_refl: "py_eq a a"
proof (induction a)
  case (JArr xs)
  then show ?case by (auto simp: in_set_conv_nth)
next
  case (JObj d)
  have "py_eq v v" if "map_of d k = Some v" for k v
  proof -
    from that have "(k, v) \<in> set d" by (rule map_of_SomeD)
    then show "py_eq v v" using JObj by (auto simp: snds.simps)
  qed
  then show ?case by (auto split: option.splits simp: map_of_eq_None_iff)
qed auto

lemma map_of_dict_merge_present:
  "map_of base k \<noteq> None \<Longrightarrow> map_of (dict_merge base extra) k \<noteq> None"
  unfolding dict_merge_def
  by (induction extra arbitrary: base) (auto simp: map_of_dset)

lemma new_ticket_has_user_priority:
  "\<exists>u. map_of (new_ticket uid now username ticket_data) ''user_priority'' = Some u"
proof -
  have "map_of (new_ticket uid now username ticket_data) ''user_priority'' \<noteq> None"
    unfolding new_ticket_def by (rule map_of_dict_merge_present) simp
  then show ?thesis by auto
qed

text \<open>The result of \<open>create_ticket\<close> in terms of the two judgements.\<close>

lemma create_ticket_unfold:
  assumes v: "validate_and_enhance_ticket L S n (new_ticket uid now username ticket_data) = (v, n1)"
    and pa: "calculate_priority_score L S n1
               (dset (new_ticket uid now username ticket_data) ''validation'' (JObj v)) = (pa, n2)"
    and up: "map_of (new_ticket uid now username ticket_data) ''user_priority'' = Some up"
  shows "create_ticket L S n uid now username ticket_data =
     (let t2 = dset (dset (dset (dset (new_ticket uid now username ticket_data) ''validation'' (JObj v))
                  ''priority_analysis'' (JObj pa))
                  ''calculated_priority'' (dget pa ''calculated_priority'' up))
                  ''priority_score'' (dget pa ''priority_score'' (JNum 5))
      in if py_ne (dget pa ''calculated_priority'' up) up
         then dset (dset t2 ''status'' (JStr ''AI Review'')) ''needs_priority_review'' (JBool True)
         else t2, n2)"
proof -
  have u: "dget (new_ticket uid now username ticket_data) ''user_priority'' JNull = up"
    by (simp add: dget_def up)
  show ?thesis
    unfolding create_ticket_def Let_def v prod.case pa
    by (simp add: dget_dset u)
qed


lemma call_ai_unreachable:
  assumes "\<not> use_mock S" "remote_ai S n sp upr = None"
  shows "call_ai L S n sp upr = (JStr ''{}'', Suc n)"
  using assms by (simp add: call_ai_def)

lemma brace_slice_empty_object: "brace_slice ''{}'' = ''{}''"
  by (simp add: brace_slice_def find_char_def rfind_char_def)

lemma parse_empty_object:
  assumes "json_loads L ''{}'' = Some []"
  shows "parse_ai_json L (JStr ''{}'') fb = []"
  using assms by (simp add: parse_ai_json_def brace_slice_empty_object)

lemma render_example: "render_card example_lib example_ticket = Inr (8, False, ''AI Review'')"
  by (simp add: render_card_def example_ticket_def ditem_def card_status_def card_priority_score_def
      dget_def py_float_def card_reasoning_def preview_ok_def py_len_def card_completeness_warning_def
      py_lt_float_def)

lemma combine_mono:
  assumes "w1 \<le> v1" "w2 \<le> v2" "w3 \<le> v3" "w4 \<le> v4"
  shows "combine comb w1 w2 w3 w4 \<le> combine comb v1 v2 v3 v4"
proof (cases comb)
  case NormalizedSum
  have "w1 + w2 + w3 + w4 \<le> v1 + v2 + v3 + v4" using assms by simp
  then have "(of_nat (w1 + w2 + w3 + w4) :: rat) \<le> of_nat (v1 + v2 + v3 + v4)"
    by (simp only: of_nat_le_iff)
  then show ?thesis unfolding NormalizedSum by (simp add: divide_right_mono)
next
  case Maximum
  have "max (max w1 w2) (max w3 w4) \<le> max (max v1 v2) (max v3 v4)" using assms by auto
  then have "(of_nat (max (max w1 w2) (max w3 w4)) :: rat) \<le> of_nat (max (max v1 v2) (max v3 v4))"
    by (simp only: of_nat_le_iff)
  then show ?thesis unfolding Maximum by simp
next
  case (WeightedAverage a b c d)
  have "a * w1 + b * w2 + c * w3 + d * w4 \<le> a * v1 + b * v2 + c * v3 + d * v4"
    using assms by (simp add: add_mono mult_le_mono2)
  then have "(of_nat (a * w1 + b * w2 + c * w3 + d * w4) :: rat) \<le> of_nat (a * v1 + b * v2 + c * v3 + d * v4)"
    by (simp only: of_nat_le_iff)
  then show ?thesis unfolding WeightedAverage combine.simps by (rule divide_right_mono) simp
qed


































section \<open>Creation and the review flag\<close>

text \<open>
  C1. A ticket created from the creation fields (the five keys both callers pass) carries
  the declared priority as \<open>user_priority\<close> and the \<open>calculated_priority\<close> member of the
  advisory answer, or the declared priority when the answer has none, as
  \<open>calculated_priority\<close>. When the two differ (Python's \<open>!=\<close>) its status is
  \<open>AI Review\<close> and \<open>needs_priority_review\<close> is \<open>True\<close>; when they are equal its status
  is \<open>Draft\<close> and \<open>needs_priority_review\<close> is not set, which every reader of the flag
  (\<open>ticket.get("needs_priority_review")\<close>) takes as false.
\<close>

theorem create_ticket_review_iff:
  assumes keys: "fst ` set ticket_data \<subseteq> {''summary'', ''description'', ''server'', ''rack'', ''priority''}"
    and run: "create_ticket L S n uid now username ticket_data = (t, n')"
  shows "\<exists>pa cp up.
           map_of t ''priority_analysis'' = Some (JObj pa) \<and>
           up = dget ticket_data ''priority'' (JStr ''Medium'') \<and>
           cp = dget pa ''calculated_priority'' up \<and>
           map_of t ''user_priority'' = Some up \<and>
           map_of t ''calculated_priority'' = Some cp \<and>
           (if py_ne cp up
            then map_of t ''status'' = Some (JStr ''AI Review'') \<and>
                 map_of t ''needs_priority_review'' = Some (JBool True)
            else map_of t ''status'' = Some (JStr ''Draft'') \<and>
                 map_of t ''needs_priority_review'' = None)"
proof -
  define t0 where "t0 = new_ticket uid now username ticket_data"
  note nt = new_ticket_fields [OF keys, of uid now username, folded t0_def]
  obtain v n1 where v: "validate_and_enhance_ticket L S n t0 = (v, n1)"
    by (cases "validate_and_enhance_ticket L S n t0")
  define t1 where "t1 = dset t0 ''validation'' (JObj v)"
  obtain pa n2 where pa: "calculate_priority_score L S n1 t1 = (pa, n2)"
    by (cases "calculate_priority_score L S n1 t1")
  define up where "up = dget ticket_data ''priority'' (JStr ''Medium'')"
  define cp where "cp = dget pa ''calculated_priority'' up"
  define t2 where "t2 = dset (dset (dset t1 ''priority_analysis'' (JObj pa)) ''calculated_priority'' cp)
     ''priority_score'' (dget pa ''priority_score'' (JNum 5))"
  have up1: "dget (dset t1 ''priority_analysis'' (JObj pa)) ''user_priority'' JNull = up"
    by (simp add: dget_dset t1_def up_def) (simp add: dget_def nt)
  have m2: "map_of t2 ''user_priority'' = Some up" "map_of t2 ''calculated_priority'' = Some cp"
    "map_of t2 ''status'' = Some (JStr ''Draft'')" "map_of t2 ''needs_priority_review'' = None"
    "map_of t2 ''priority_analysis'' = Some (JObj pa)"
    by (simp_all add: t2_def t1_def map_of_dset nt up_def)
  have g2: "dget t2 ''calculated_priority'' JNull = cp" "dget t2 ''user_priority'' JNull = up"
    by (simp_all add: dget_def m2)
  have t: "t = (if py_ne cp up
      then dset (dset t2 ''status'' (JStr ''AI Review'')) ''needs_priority_review'' (JBool True)
      else t2)"
    using run unfolding create_ticket_def t0_def [symmetric] Let_def v prod.case t1_def [symmetric] pa
      up1 cp_def [symmetric] t2_def [symmetric] g2
    by simp
  show ?thesis
    by (rule exI [of _ pa], rule exI [of _ cp], rule exI [of _ up])
      (simp add: t map_of_dset m2 cp_def up_def)
qed


theorem create_ticket_review_iff_witness:
  "fst ` set example_form \<subseteq> {''summary'', ''description'', ''server'', ''rack'', ''priority''} \<and>
   map_of (fst (create_ticket example_lib example_answering 0
      ''0f8fad5b-d9cb-469f-a165-70867728950e'' ''2024-05-01T10:00:00+00:00'' ''tech1'' example_form))
     ''status'' = Some (JStr ''AI Review'')"
proof -
  let ?S = "example_answering"
  let ?r = "create_ticket example_lib ?S 0
      ''0f8fad5b-d9cb-469f-a165-70867728950e'' ''2024-05-01T10:00:00+00:00'' ''tech1'' example_form"
  have keys: "fst ` set example_form \<subseteq> {''summary'', ''description'', ''server'', ''rack'', ''priority''}"
    by (simp add: example_form_def)
  have run: "?r = (fst ?r, snd ?r)" by simp
  have pa: "map_of (fst ?r) ''priority_analysis''
      = Some (JObj [(''calculated_priority'', JStr ''High''), (''priority_score'', JNum 42)])"
    by (simp add: create_ticket_def calculate_high validate_high Let_def map_of_dset)
  have up: "dget example_form ''priority'' (JStr ''Medium'') = JStr ''Low''"
    by (simp add: dget_def example_form_def)
  from create_ticket_review_iff [OF keys run] pa up
  have "map_of (fst ?r) ''status'' = Some (JStr ''AI Review'')"
    by (auto simp: dget_def py_ne_def split: if_splits)
  with keys show ?thesis by simp
qed

section \<open>Creation when the advisory service fails\<close>

text \<open>
  C2. When the remote service is configured and every request to it fails, \<open>call_ai\<close>
  answers with the text of the empty object, which parses: both judgements are the empty
  dict and the fallback dicts are never reached. The ticket is created, its
  \<open>priority_score\<close> is 5 and its \<open>calculated_priority\<close> is its \<open>user_priority\<close>, but its
  \<open>validation\<close> is the empty dict: it has neither \<open>completeness_score\<close> nor
  \<open>is_complete\<close>, where the claim has 0.7 and true.
\<close>

theorem create_ticket_unreachable:
  assumes remote: "\<not> use_mock S" "\<forall>k sp upr. remote_ai S k sp upr = None"
    and loads: "json_loads L ''{}'' = Some []"
    and run: "create_ticket L S n uid now username ticket_data = (t, n')"
  shows "map_of t ''validation'' = Some (JObj []) \<and>
         map_of t ''priority_score'' = Some (JNum 5) \<and>
         map_of t ''calculated_priority'' = map_of t ''user_priority''"
proof -
  let ?t0 = "new_ticket uid now username ticket_data"
  have v: "validate_and_enhance_ticket L S n ?t0 = ([], Suc n)"
    using remote loads
    by (simp add: validate_and_enhance_ticket_def call_ai_unreachable parse_empty_object)
  have pa: "calculate_priority_score L S (Suc n) (dset ?t0 ''validation'' (JObj [])) = ([], Suc (Suc n))"
    using remote loads
    by (simp add: calculate_priority_score_def call_ai_unreachable parse_empty_object)
  obtain up where up: "map_of ?t0 ''user_priority'' = Some up"
    using new_ticket_has_user_priority by blast
  have "py_eq up up" by (rule py_eq_refl)
  then have t: "t = dset (dset (dset (dset ?t0 ''validation'' (JObj [])) ''priority_analysis'' (JObj []))
                  ''calculated_priority'' up) ''priority_score'' (JNum 5)"
    using run unfolding create_ticket_unfold [OF v pa up]
    by (simp add: Let_def dget_def py_ne_def)
  show ?thesis
    unfolding t by (simp add: map_of_dset up dget_def)
qed


theorem create_ticket_unreachable_witness:
  "\<not> use_mock example_unreachable \<and>
   (\<forall>k sp upr. remote_ai example_unreachable k sp upr = None) \<and>
   json_loads example_lib ''{}'' = Some [] \<and>
   map_of (fst (create_ticket example_lib example_unreachable 0
      ''0f8fad5b-d9cb-469f-a165-70867728950e'' ''2024-05-01T10:00:00+00:00'' ''tech1'' example_form))
     ''validation'' = Some (JObj [])"
proof -
  let ?r = "create_ticket example_lib example_unreachable 0
      ''0f8fad5b-d9cb-469f-a165-70867728950e'' ''2024-05-01T10:00:00+00:00'' ''tech1'' example_form"
  have a: "\<not> use_mock example_unreachable"
    by (simp add: use_mock_def example_unreachable_def example_remote_def)
  have b: "\<forall>k sp upr. remote_ai example_unreachable k sp upr = None"
    by (simp add: example_unreachable_def example_remote_def)
  have c: "json_loads example_lib ''{}'' = Some []"
    by (simp add: example_lib_def example_loads_def)
  have run: "?r = (fst ?r, snd ?r)" by simp
  from create_ticket_unreachable [OF a b c run] a b c show ?thesis by simp
qed

section \<open>The stored priority score\<close>





section \<open>The priority model\<close>

text \<open>
  C5. For all valid levels of the four factors and each of the three combination functions
  the spec names, raising one factor to a level of higher (or equal) weight in
  \<open>PRIORITY_WEIGHTS\<close>, the other three held fixed, does not lower the combined score.
\<close>

theorem priority_model_monotone:
  assumes "valid_level ''impact_scope'' i" "valid_level ''impact_scope'' i'"
    and "valid_level ''service_impact'' s" "valid_level ''service_impact'' s'"
    and "valid_level ''urgency'' u" "valid_level ''urgency'' u'"
    and "valid_level ''safety'' f" "valid_level ''safety'' f'"
  shows "(level_weight ''impact_scope'' i \<le> level_weight ''impact_scope'' i' \<longrightarrow>
            priority_model_score comb i s u f \<le> priority_model_score comb i' s u f) \<and>
         (level_weight ''service_impact'' s \<le> level_weight ''service_impact'' s' \<longrightarrow>
            priority_model_score comb i s u f \<le> priority_model_score comb i s' u f) \<and>
         (level_weight ''urgency'' u \<le> level_weight ''urgency'' u' \<longrightarrow>
            priority_model_score comb i s u f \<le> priority_model_score comb i s u' f) \<and>
         (level_weight ''safety'' f \<le> level_weight ''safety'' f' \<longrightarrow>
            priority_model_score comb i s u f \<le> priority_model_score comb i s u f')"
  unfolding priority_model_score_def by (simp add: combine_mono)

theorem priority_model_monotone_witness:
  "valid_level ''impact_scope'' ''rack'' \<and> valid_level ''impact_scope'' ''row'' \<and>
   valid_level ''service_impact'' ''degraded'' \<and> valid_level ''service_impact'' ''full_outage'' \<and>
   valid_level ''urgency'' ''scheduled'' \<and> valid_level ''urgency'' ''immediate'' \<and>
   valid_level ''safety'' ''none'' \<and> valid_level ''safety'' ''minor'' \<and>
   level_weight ''impact_scope'' ''rack'' \<le> level_weight ''impact_scope'' ''row'' \<and>
   priority_model_score NormalizedSum ''rack'' ''degraded'' ''scheduled'' ''none''
     \<le> priority_model_score NormalizedSum ''row'' ''degraded'' ''scheduled'' ''none'' \<and>
   priority_model_score NormalizedSum ''rack'' ''degraded'' ''scheduled'' ''none'' = 3 / 2"
proof -
  have v: "valid_level ''impact_scope'' ''rack''" "valid_level ''impact_scope'' ''row''"
    "valid_level ''service_impact'' ''degraded''" "valid_level ''service_impact'' ''full_outage''"
    "valid_level ''urgency'' ''scheduled''" "valid_level ''urgency'' ''immediate''"
    "valid_level ''safety'' ''none''" "valid_level ''safety'' ''minor''"
    by (simp_all add: valid_level_def factor_levels_def PRIORITY_WEIGHTS_def)
  have w: "level_weight ''impact_scope'' ''rack'' \<le> level_weight ''impact_scope'' ''row''"
    by (simp add: level_weight_def factor_levels_def PRIORITY_WEIGHTS_def)
  have e: "priority_model_score NormalizedSum ''rack'' ''degraded'' ''scheduled'' ''none'' = 3 / 2"
    by (simp add: priority_model_score_def level_weight_def factor_levels_def PRIORITY_WEIGHTS_def)
  from priority_model_monotone [OF v, of NormalizedSum] v w e show ?thesis by simp
qed


section \<open>Reading stored tickets\<close>

text \<open>
  C6. The read path does not absorb every stored shape. With a dict as
  \<open>completeness_score\<close> the card raises \<open>TypeError\<close> (it compares the value with 0.8
  unguarded) where the detail view of the same ticket reads 0.7; with a list as
  \<open>priority_score\<close> both the card and the detail view raise \<open>TypeError\<close> in \<open>float()\<close>.
  Only a dict as \<open>priority_score\<close> is read as 0.
\<close>

theorem card_read_raises:
  "render_card example_lib (dset example_ticket ''validation'' (JObj [(''completeness_score'', JObj [(''value'', JNum (6 / 10))])]))
     = Inl TypeError \<and>
   detail_completeness example_lib (dset example_ticket ''validation'' (JObj [(''completeness_score'', JObj [(''value'', JNum (6 / 10))])]))
     = Inr (7 / 10) \<and>
   render_card example_lib (dset example_ticket ''priority_score'' (JArr [JNum 8])) = Inl TypeError \<and>
   detail_priority_score example_lib (dset example_ticket ''priority_score'' (JArr [JNum 8])) = Inl TypeError \<and>
   detail_priority_score example_lib (dset example_ticket ''priority_score'' (JObj [(''value'', JNum 8)])) = Inr 0"
  by (simp add: render_card_def example_ticket_def ditem_def card_status_def card_priority_score_def
      dget_def py_float_def card_reasoning_def preview_ok_def py_len_def card_completeness_warning_def
      py_lt_float_def dset_def detail_completeness_def detail_priority_score_def)

section \<open>The lifecycle\<close>



section \<open>Synchronisation with Jira\<close>




section \<open>Deletion\<close>




section \<open>Required fields\<close>





section \<open>Creation with the stand-in\<close>




end
